theory Spec2Isabelle
  imports Complex_Main "HOL-Library.AList"
begin

section \<open>Values, data types and tables of the columnar engine\<close>

text \<open>
  The adapter class \<open>GDGJson\<close> of \<open>src/src/gdg_json/__init__.py\<close> keeps one
  attribute, \<open>self.df\<close>, a reference to a table of the columnar engine (polars), and
  every method is one or two calls of the engine. The engine is not part of the
  repository; the primitives the methods call are modelled here on the values below.

  A cell value is what \<open>to_dicts\<close> hands to Python and what a JSON document
  denotes: \<open>None\<close>, a bool, an int, a float (by the real number the double is),
  a str, a list, or a dict with string keys (kept as an association list in key
  order).
\<close>

datatype val =
    VNull
  | VBool bool
  | VInt int
  | VFloat real
  | VStr string
  | VList "val list"
  | VStruct "(string \<times> val) list"

datatype dtype =
    TNull
  | TBoolean
  | TInt64
  | TFloat64
  | TString
  | TList dtype
  | TStruct "(string \<times> dtype) list"

record series =
  name :: string
  dtype :: dtype
  vals :: "val list"

text \<open>A table is the ordered list of its columns.\<close>

type_synonym dataframe = "series list"

type_synonym row = "(string \<times> val) list"

text \<open>
  The argument of the constructor of the adapter: a \<open>str\<close> (by the JSON document
  it denotes), a \<open>dict\<close> of sequences, a table (by its address, tables being
  objects), a \<open>list\<close> of row dicts, or any other object.
\<close>

type_synonym addr = nat

datatype json_obj =
    StrObj val
  | DictObj "(string \<times> val list) list"
  | DataFrameObj addr
  | ListObj "row list"
  | OtherObj

datatype error =
    ValueError
  | TypeError
  | KeyError
  | AttributeError
  | ColumnNotFoundError
  | DuplicateError
  | StructFieldNotFoundError
  | InvalidOperationError

text \<open>
  What the repository leaves to the engine it is installed with (no version is
  pinned): the defaults of \<open>explode\<close>, which differ between versions of the engine
  (polars 1.x turns an empty list into one row holding null, later versions drop the
  row), and \<open>outside\<close>, what the engine makes of a constructor argument outside the
  fragment of \<open>read_json\<close> and \<open>DataFrame\<close> modelled below. Nothing is assumed
  of \<open>outside\<close>.
\<close>

record engine =
  outside :: "json_obj \<Rightarrow> error + dataframe"
  empty_as_null :: bool
  keep_nulls :: bool

definition columns :: "dataframe \<Rightarrow> string list" where
  "columns d = map name d"

text \<open>
  The number of rows. A table is kept as the list of its columns, so a table without
  columns has no rows here; versions of the engine differ on such a table (later ones
  keep a row count), and the properties below that speak of rows are about tables
  with a column.
\<close>

definition height :: "dataframe \<Rightarrow> nat" where
  "height d = (case d of [] \<Rightarrow> 0 | s # ss \<Rightarrow> length (vals s))"

definition get_column :: "string \<Rightarrow> dataframe \<Rightarrow> series option" where
  "get_column c d = find (\<lambda>s. name s = c) d"

text \<open>\<open>df.schema[c]\<close>: the data type of column \<open>c\<close>, \<open>KeyError\<close> when absent.\<close>

definition schema_getitem :: "string \<Rightarrow> dataframe \<Rightarrow> error + dtype" where
  "schema_getitem c d =
     (case get_column c d of None \<Rightarrow> Inl KeyError | Some s \<Rightarrow> Inr (dtype s))"

text \<open>
  \<open>dtype.fields\<close>: only the struct data type has this attribute; on any other data
  type Python raises \<open>AttributeError\<close>.
\<close>

definition dtype_fields :: "dtype \<Rightarrow> error + (string \<times> dtype) list" where
  "dtype_fields t = (case t of TStruct fs \<Rightarrow> Inr fs | _ \<Rightarrow> Inl AttributeError)"

text \<open>\<open>df.to_dicts()\<close>: one dict per row, keyed by column name, in column order.\<close>

definition to_dicts :: "dataframe \<Rightarrow> row list" where
  "to_dicts d = map (\<lambda>i. map (\<lambda>s. (name s, vals s ! i)) d) [0..<height d]"

subsection \<open>Expressions and \<open>select\<close>\<close>

text \<open>
  The expressions the adapter builds: \<open>pl.col(c)\<close>, \<open>e.struct.field(f)\<close> and
  \<open>e.alias(a)\<close>. The field of a null struct is null; asking a column that is not
  a struct for a field is answered like asking a struct for a field it has not.
\<close>

datatype expr =
    Col string
  | Field expr string
  | Alias expr string

fun struct_field_val :: "string \<Rightarrow> val \<Rightarrow> val" where
  "struct_field_val f (VStruct kvs) = (case map_of kvs f of Some v \<Rightarrow> v | None \<Rightarrow> VNull)"
| "struct_field_val f v = VNull"

fun eval_expr :: "dataframe \<Rightarrow> expr \<Rightarrow> error + series" where
  "eval_expr d (Col c) =
     (case get_column c d of None \<Rightarrow> Inl ColumnNotFoundError | Some s \<Rightarrow> Inr s)"
| "eval_expr d (Field e f) =
     (case eval_expr d e of
        Inl x \<Rightarrow> Inl x
      | Inr s \<Rightarrow>
          (case dtype s of
             TStruct fs \<Rightarrow>
               (case map_of fs f of
                  None \<Rightarrow> Inl StructFieldNotFoundError
                | Some t \<Rightarrow> Inr \<lparr>name = f, dtype = t, vals = map (struct_field_val f) (vals s)\<rparr>)
           | _ \<Rightarrow> Inl StructFieldNotFoundError))"
| "eval_expr d (Alias e a) =
     (case eval_expr d e of Inl x \<Rightarrow> Inl x | Inr s \<Rightarrow> Inr (s\<lparr>name := a\<rparr>))"

text \<open>The first error of a list of results, or all the values.\<close>

fun collect :: "(error + 'a) list \<Rightarrow> error + 'a list" where
  "collect [] = Inr []"
| "collect (Inl e # rs) = Inl e"
| "collect (Inr x # rs) = (case collect rs of Inl e \<Rightarrow> Inl e | Inr xs \<Rightarrow> Inr (x # xs))"

text \<open>The name of the column an expression gives.\<close>

fun output_name :: "expr \<Rightarrow> string" where
  "output_name (Col c) = c"
| "output_name (Field e f) = f"
| "output_name (Alias e a) = a"

text \<open>
  \<open>df.select(exprs)\<close>: a new table of the evaluated expressions, in order. Two
  expressions of one output name are refused with \<open>DuplicateError\<close>, and this
  before any expression is evaluated. Every expression here is a projection of a
  column of \<open>df\<close>, so the results have the height of \<open>df\<close>.
\<close>

definition df_select :: "expr list \<Rightarrow> dataframe \<Rightarrow> error + dataframe" where
  "df_select es d =
     (if distinct (map output_name es)
      then (case collect (map (eval_expr d) es) of Inl e \<Rightarrow> Inl e | Inr ss \<Rightarrow> Inr ss)
      else Inl DuplicateError)"

subsection \<open>\<open>with_columns\<close>, \<open>rename\<close>, \<open>drop\<close>, \<open>explode\<close>, item assignment\<close>

definition upsert :: "dataframe \<Rightarrow> series \<Rightarrow> dataframe" where
  "upsert d s =
     (if name s \<in> set (columns d) then map (\<lambda>x. if name x = name s then s else x) d
      else d @ [s])"

text \<open>
  \<open>df.with_columns(exprs)\<close>: a result replaces the column of its name, or is
  appended.
\<close>

definition df_with_columns :: "expr list \<Rightarrow> dataframe \<Rightarrow> error + dataframe" where
  "df_with_columns es d =
     (if distinct (map output_name es)
      then (case collect (map (eval_expr d) es) of
              Inl e \<Rightarrow> Inl e
            | Inr ss \<Rightarrow> Inr (foldl upsert d ss))
      else Inl DuplicateError)"

text \<open>
  \<open>dict(pairs)\<close>: a later pair of a key already seen replaces its value and keeps
  its place.
\<close>

definition dict :: "('k \<times> 'v) list \<Rightarrow> ('k \<times> 'v) list" where
  "dict ps = foldl (\<lambda>m kv. AList.update (fst kv) (snd kv) m) [] ps"

text \<open>
  \<open>df.rename(mapping)\<close> (strict, the default): the columns are renamed at once
  and keep their places. The new names must be distinct, which the engine checks
  first (\<open>DuplicateError\<close>); then every key must be a column
  (\<open>ColumnNotFoundError\<close>).
\<close>

definition df_rename :: "(string \<times> string) list \<Rightarrow> dataframe \<Rightarrow> error + dataframe" where
  "df_rename m d =
     (let d' = map (\<lambda>s. case map_of m (name s) of Some n \<Rightarrow> s\<lparr>name := n\<rparr> | None \<Rightarrow> s) d
      in if \<not> distinct (columns d') then Inl DuplicateError
         else if list_ex (\<lambda>k. k \<notin> set (columns d)) (map fst m) then Inl ColumnNotFoundError
         else Inr d')"

text \<open>\<open>df.drop(names)\<close> (strict, the default): every name must be a column.\<close>

definition df_drop :: "string list \<Rightarrow> dataframe \<Rightarrow> error + dataframe" where
  "df_drop cs d =
     (if list_ex (\<lambda>c. c \<notin> set (columns d)) cs then Inl ColumnNotFoundError
      else Inr (filter (\<lambda>s. name s \<notin> set cs) d))"

text \<open>
  \<open>df.explode(c)\<close>, called with the defaults of the engine: a row whose list has
  \<open>n > 0\<close> elements becomes \<open>n\<close> rows; a row whose list is empty becomes one row
  holding null under \<open>empty_as_null\<close> and no row otherwise; a row holding null
  becomes one row holding null under \<open>keep_nulls\<close> and no row otherwise. The other
  columns repeat their value over the rows made of one row.
\<close>

fun explode_val :: "engine \<Rightarrow> val \<Rightarrow> val list" where
  "explode_val eng (VList (x # xs)) = x # xs"
| "explode_val eng (VList []) = (if empty_as_null eng then [VNull] else [])"
| "explode_val eng v = (if keep_nulls eng then [VNull] else [])"

definition repeat_vals :: "val list \<Rightarrow> val list list \<Rightarrow> val list" where
  "repeat_vals vs parts = concat (map (\<lambda>(v, p). replicate (length p) v) (zip vs parts))"

definition df_explode :: "engine \<Rightarrow> string \<Rightarrow> dataframe \<Rightarrow> error + dataframe" where
  "df_explode eng c d =
     (case get_column c d of
        None \<Rightarrow> Inl ColumnNotFoundError
      | Some s \<Rightarrow>
          (case dtype s of
             TList t \<Rightarrow>
               (let parts = map (explode_val eng) (vals s)
                in Inr (map (\<lambda>x. if name x = c
                                  then \<lparr>name = c, dtype = t, vals = concat parts\<rparr>
                                  else x\<lparr>vals := repeat_vals (vals x) parts\<rparr>) d))
           | _ \<Rightarrow> Inl InvalidOperationError))"

text \<open>
  \<open>df[key] = value\<close> with a string key: the engine's table refuses the assignment
  of a column by name with \<open>TypeError\<close> (it points to \<open>with_columns\<close>), and the
  table is not touched. The result would be the table written in place.
\<close>

definition df_setitem :: "string \<Rightarrow> val \<Rightarrow> dataframe \<Rightarrow> error + dataframe" where
  "df_setitem key v d = Inl TypeError"

subsection \<open>Reading JSON and building a table of a dict\<close>

text \<open>
  \<open>pl.read_json\<close> infers one data type for the records of the document, from the
  first 100 of them, and stores every record at that type. The types of two values
  are unified: null gives way to every type, a bool met with an int makes the column
  an integer column, lists unify by their elements, structs by their fields, taken by
  name, the fields of the first before the new fields of the second. Where the
  engine coerces otherwise (an int met with a float or a string, a list met with a
  scalar) \<open>unify\<close> answers \<open>None\<close>, and so does \<open>infer\<close> on an integer beyond 64
  bits and on a record that has a key twice.
\<close>

fun unify :: "dtype \<Rightarrow> dtype \<Rightarrow> dtype option"
  and unify_fields ::
    "(string \<times> dtype) list \<Rightarrow> (string \<times> dtype) list \<Rightarrow> (string \<times> dtype) list option" where
  "unify TNull t = Some t"
| "unify t TNull = Some t"
| "unify TBoolean TInt64 = Some TInt64"
| "unify TInt64 TBoolean = Some TInt64"
| "unify (TList a) (TList b) = map_option TList (unify a b)"
| "unify (TStruct fs) (TStruct gs) = map_option TStruct (unify_fields fs gs)"
| "unify a b = (if a = b then Some a else None)"
| "unify_fields [] gs = Some gs"
| "unify_fields ((k, a) # fs) gs =
     (case map_of gs k of
        None \<Rightarrow> map_option (Cons (k, a)) (unify_fields fs gs)
      | Some b \<Rightarrow>
          (case unify a b of
             None \<Rightarrow> None
           | Some t \<Rightarrow> map_option (Cons (k, t)) (unify_fields fs (AList.delete k gs))))"

fun infer :: "val \<Rightarrow> dtype option"
  and infer_items :: "val list \<Rightarrow> dtype option"
  and infer_fields :: "(string \<times> val) list \<Rightarrow> (string \<times> dtype) list option" where
  "infer VNull = Some TNull"
| "infer (VBool b) = Some TBoolean"
| "infer (VInt n) = (if - (2 ^ 63) \<le> n \<and> n < 2 ^ 63 then Some TInt64 else None)"
| "infer (VFloat x) = Some TFloat64"
| "infer (VStr s) = Some TString"
| "infer (VList xs) = map_option TList (infer_items xs)"
| "infer (VStruct kvs) =
     (if distinct (map fst kvs) then map_option TStruct (infer_fields kvs) else None)"
| "infer_items [] = Some TNull"
| "infer_items (x # xs) =
     (case infer x of
        None \<Rightarrow> None
      | Some t \<Rightarrow> (case infer_items xs of None \<Rightarrow> None | Some u \<Rightarrow> unify t u))"
| "infer_fields [] = Some []"
| "infer_fields ((k, v) # kvs) =
     (case infer v of None \<Rightarrow> None | Some t \<Rightarrow> map_option (Cons (k, t)) (infer_fields kvs))"

text \<open>
  \<open>store t v\<close>: the cell the reader makes of the value \<open>v\<close> in a column of type
  \<open>t\<close>. A bool in an integer column becomes 0 or 1. A record in a struct column
  is taken field by field, by key, and a key it has not gives null. \<open>None\<close> is
  where the engine is not modelled: a null or a missing record in a struct column, a
  struct type without fields, a record with a key twice or a key the type has not,
  and the coercions \<open>unify\<close> leaves out.
\<close>

fun store :: "dtype \<Rightarrow> val \<Rightarrow> val option"
  and store_items :: "dtype \<Rightarrow> val list \<Rightarrow> val list option"
  and store_fields :: "(string \<times> dtype) list \<Rightarrow> (string \<times> val) list \<Rightarrow> (string \<times> val) list option" where
  "store (TStruct fs) (VStruct kvs) =
     (if fs \<noteq> [] \<and> distinct (map fst kvs) \<and> list_all (\<lambda>k. k \<in> set (map fst fs)) (map fst kvs)
      then map_option VStruct (store_fields fs kvs) else None)"
| "store (TStruct fs) v = None"
| "store t VNull = Some VNull"
| "store TBoolean (VBool b) = Some (VBool b)"
| "store TInt64 (VBool b) = Some (VInt (if b then 1 else 0))"
| "store TInt64 (VInt n) = (if - (2 ^ 63) \<le> n \<and> n < 2 ^ 63 then Some (VInt n) else None)"
| "store TFloat64 (VFloat x) = Some (VFloat x)"
| "store TString (VStr s) = Some (VStr s)"
| "store (TList t) (VList xs) = map_option VList (store_items t xs)"
| "store t v = None"
| "store_items t [] = Some []"
| "store_items t (x # xs) =
     (case store t x of None \<Rightarrow> None | Some y \<Rightarrow> map_option (Cons y) (store_items t xs))"
| "store_fields [] kvs = Some []"
| "store_fields ((k, t) # fs) kvs =
     (case store t (struct_field_val k (VStruct kvs)) of
        None \<Rightarrow> None
      | Some y \<Rightarrow> map_option (Cons (k, y)) (store_fields fs kvs))"

definition frame_of_records :: "(string \<times> dtype) list \<Rightarrow> val list \<Rightarrow> dataframe" where
  "frame_of_records cols rs =
     map (\<lambda>kt. \<lparr>name = fst kt, dtype = snd kt, vals = map (struct_field_val (fst kt)) rs\<rparr>) cols"

text \<open>
  The table of a non-empty list of records, where modelled: one column per field of
  the inferred type, holding the stored records' fields.
\<close>

definition read_records :: "val list \<Rightarrow> dataframe option" where
  "read_records rs =
     (case infer_items (take 100 rs) of
        Some (TStruct cols) \<Rightarrow>
          (case store_items (TStruct cols) rs of
             Some rs' \<Rightarrow> Some (frame_of_records cols rs')
           | None \<Rightarrow> None)
      | _ \<Rightarrow> None)"

text \<open>
  \<open>pl.read_json(StringIO(text))\<close>, on the document \<open>doc\<close> the text denotes: an
  array of records gives one row per record, the empty array the empty table, a
  single record one row. \<open>ext\<close> is what the engine answers where it is not
  modelled.
\<close>

definition read_json :: "error + dataframe \<Rightarrow> val \<Rightarrow> error + dataframe" where
  "read_json ext doc =
     (case doc of
        VList rs \<Rightarrow>
          if rs = [] then Inr []
          else (case read_records rs of Some d \<Rightarrow> Inr d | None \<Rightarrow> ext)
      | VStruct kvs \<Rightarrow> (case read_records [doc] of Some d \<Rightarrow> Inr d | None \<Rightarrow> ext)
      | _ \<Rightarrow> ext)"

text \<open>
  \<open>has_type t v\<close>: the value \<open>v\<close> is of the type \<open>t\<close> as it stands: null, or a
  scalar of exactly the scalar type (an integer of 64 bits), or a list of such values,
  or a record that has exactly the fields of the struct type, in any order, each of
  its type.
\<close>

fun has_type :: "dtype \<Rightarrow> val \<Rightarrow> bool"
  and has_items :: "dtype \<Rightarrow> val list \<Rightarrow> bool"
  and has_fields :: "(string \<times> dtype) list \<Rightarrow> (string \<times> val) list \<Rightarrow> bool" where
  "has_type (TStruct fs) (VStruct kvs) =
     (fs \<noteq> [] \<and> distinct (map fst fs) \<and> distinct (map fst kvs) \<and> length kvs = length fs
      \<and> has_fields fs kvs)"
| "has_type (TStruct fs) v = False"
| "has_type t VNull = True"
| "has_type TBoolean (VBool b) = True"
| "has_type TInt64 (VInt n) = (- (2 ^ 63) \<le> n \<and> n < 2 ^ 63)"
| "has_type TFloat64 (VFloat x) = True"
| "has_type TString (VStr s) = True"
| "has_type (TList t) (VList xs) = has_items t xs"
| "has_type t v = False"
| "has_items t [] = True"
| "has_items t (x # xs) = (has_type t x \<and> has_items t xs)"
| "has_fields [] kvs = True"
| "has_fields ((k, t) # fs) kvs =
     (case map_of kvs k of None \<Rightarrow> False | Some v \<Rightarrow> has_type t v \<and> has_fields fs kvs)"

text \<open>
  \<open>pl.DataFrame(mapping)\<close>, on a mapping of column names to sequences: a sequence
  whose values are of its inferred type becomes a column of that type, when the
  sequences have one length.
\<close>

definition column_of :: "string \<times> val list \<Rightarrow> series option" where
  "column_of kv =
     (case infer_items (snd kv) of
        Some t \<Rightarrow>
          if has_items t (snd kv) then Some \<lparr>name = fst kv, dtype = t, vals = snd kv\<rparr>
          else None
      | None \<Rightarrow> None)"

fun all_some :: "'a option list \<Rightarrow> 'a list option" where
  "all_some [] = Some []"
| "all_some (None # xs) = None"
| "all_some (Some x # xs) = map_option (Cons x) (all_some xs)"

definition DataFrame :: "error + dataframe \<Rightarrow> (string \<times> val list) list \<Rightarrow> error + dataframe" where
  "DataFrame ext m =
     (case all_some (map column_of m) of
        Some d \<Rightarrow>
          if distinct (map fst m) \<and> list_all (\<lambda>s. length (vals s) = height d) d then Inr d
          else ext
      | None \<Rightarrow> ext)"

section \<open>The adapter \<open>GDGJson\<close>\<close>

text \<open>
  Tables are Python objects: the heap is the list of the tables allocated so far and
  an address is an index into it. The adapter object has the one attribute
  \<open>self.df\<close>, an address. A state is the adapter with the heap it lives in.
\<close>

type_synonym heap = "dataframe list"

record GDGJson =
  df :: addr

type_synonym state = "GDGJson \<times> heap"

text \<open>
  What a method does: it returns an adapter (\<open>self\<close> after the call, for every
  transform) or raises, and either way leaves a state behind.
\<close>

datatype outcome =
    Return state
  | Raise error state

definition table :: "state \<Rightarrow> dataframe" where
  "table s = snd s ! df (fst s)"

text \<open>\<open>self.df = d\<close> for a table \<open>d\<close> an engine call has just built.\<close>

definition assign_df :: "dataframe \<Rightarrow> state \<Rightarrow> state" where
  "assign_df d s = ((fst s)\<lparr>df := length (snd s)\<rparr>, snd s @ [d])"

text \<open>\<open>self.df = f(self)\<close>: when \<open>f\<close> raises, nothing has been assigned.\<close>

definition assign :: "(state \<Rightarrow> error + dataframe) \<Rightarrow> state \<Rightarrow> outcome" where
  "assign f s = (case f s of Inl e \<Rightarrow> Raise e s | Inr d \<Rightarrow> Return (assign_df d s))"

text \<open>One statement after another: the second runs when the first has not raised.\<close>

definition seq :: "(state \<Rightarrow> outcome) \<Rightarrow> (state \<Rightarrow> outcome) \<Rightarrow> state \<Rightarrow> outcome" where
  "seq f g s = (case f s of Raise e s' \<Rightarrow> Raise e s' | Return s' \<Rightarrow> g s')"

text \<open>
  \<open>__init__\<close>: the three \<open>isinstance\<close> branches and the \<open>ValueError\<close> of the
  \<open>else\<close>. A table given to the constructor is kept by reference.
\<close>

definition init :: "engine \<Rightarrow> json_obj \<Rightarrow> heap \<Rightarrow> error + state" where
  "init eng json_obj h =
     (case json_obj of
        StrObj doc \<Rightarrow>
          (case read_json (outside eng json_obj) doc of
             Inl e \<Rightarrow> Inl e
           | Inr d \<Rightarrow> Inr (\<lparr>df = length h\<rparr>, h @ [d]))
      | DictObj m \<Rightarrow>
          (case DataFrame (outside eng json_obj) m of
             Inl e \<Rightarrow> Inl e
           | Inr d \<Rightarrow> Inr (\<lparr>df = length h\<rparr>, h @ [d]))
      | DataFrameObj p \<Rightarrow> Inr (\<lparr>df = p\<rparr>, h)
      | _ \<Rightarrow> Inl ValueError)"

text \<open>\<open>to_json\<close> returns \<open>self.df.to_dicts()\<close>: a list of row dicts, not a string.\<close>

definition to_json :: "state \<Rightarrow> row list" where
  "to_json s = to_dicts (table s)"

text \<open>\<open>__unnest_with_prefix\<close>: the alias, then the \<open>select\<close> the method returns.\<close>

definition alias_of :: "string \<Rightarrow> string option \<Rightarrow> string" where
  "alias_of column_name prefix =
     (case prefix of
        None \<Rightarrow> column_name @ ''_''
      | Some p \<Rightarrow> if p = '''' then '''' else p @ ''_'')"

definition unnest_with_prefix :: "string \<Rightarrow> string option \<Rightarrow> state \<Rightarrow> error + dataframe" where
  "unnest_with_prefix column_name prefix s =
     (let alias = alias_of column_name prefix
      in case schema_getitem column_name (table s) of
           Inl e \<Rightarrow> Inl e
         | Inr t \<Rightarrow>
             (case dtype_fields t of
                Inl e \<Rightarrow> Inl e
              | Inr fs \<Rightarrow>
                  df_select
                    (map (\<lambda>f. Alias (Field (Col column_name) (fst f)) (alias @ fst f)) fs
                     @ map Col (filter (\<lambda>c. c \<noteq> column_name) (columns (table s))))
                    (table s)))"

definition unnest_column_as_root :: "string \<Rightarrow> state \<Rightarrow> outcome" where
  "unnest_column_as_root column_name =
     seq (assign (\<lambda>s. df_select [Col column_name] (table s)))
         (assign (unnest_with_prefix column_name (Some '''')))"

definition unnest_column_as_rows :: "engine \<Rightarrow> string \<Rightarrow> string option \<Rightarrow> state \<Rightarrow> outcome" where
  "unnest_column_as_rows eng column_name prefix =
     seq (assign (\<lambda>s. df_explode eng column_name (table s)))
         (assign (unnest_with_prefix column_name prefix))"

definition rename_column :: "string \<Rightarrow> string \<Rightarrow> state \<Rightarrow> outcome" where
  "rename_column from_name to_name = assign (\<lambda>s. df_rename [(from_name, to_name)] (table s))"

definition rename_columns :: "string list \<Rightarrow> string list \<Rightarrow> state \<Rightarrow> outcome" where
  "rename_columns from_names to_names =
     assign (\<lambda>s. df_rename (dict (zip from_names to_names)) (table s))"

definition drop_columns :: "string list \<Rightarrow> state \<Rightarrow> outcome" where
  "drop_columns column_names = assign (\<lambda>s. df_drop column_names (table s))"

definition duplicate_column :: "string \<Rightarrow> string \<Rightarrow> state \<Rightarrow> outcome" where
  "duplicate_column column_name new_column_name =
     assign (\<lambda>s. df_with_columns [Alias (Col column_name) new_column_name] (table s))"

definition expand_column :: "string \<Rightarrow> string option \<Rightarrow> state \<Rightarrow> outcome" where
  "expand_column column_name prefix = assign (unnest_with_prefix column_name prefix)"

text \<open>
  \<open>json_normalize(df)\<close> assigns \<open>pl.json_normalize(df, separator='_')\<close>; the call
  is not modelled and \<open>r\<close> is what it evaluates to.
\<close>

definition json_normalize :: "error + dataframe \<Rightarrow> state \<Rightarrow> outcome" where
  "json_normalize r = assign (\<lambda>s. r)"

text \<open>
  \<open>set_constant\<close> is the one method that writes into the table object itself:
  \<open>self.df[column_name] = value\<close>.
\<close>

definition set_constant :: "string \<Rightarrow> val \<Rightarrow> state \<Rightarrow> outcome" where
  "set_constant column_name v s =
     (case df_setitem column_name v (table s) of
        Inl e \<Rightarrow> Raise e s
      | Inr d \<Rightarrow> Return (fst s, (snd s)[df (fst s) := d]))"

text \<open>\<open>copy\<close>: \<open>GDGJson(self.to_json())\<close>, the constructor on a list of row dicts.\<close>

definition copy :: "engine \<Rightarrow> state \<Rightarrow> error + state" where
  "copy eng s = init eng (ListObj (to_json s)) (snd s)"

text \<open>
  \<open>select(*args, copy)\<close>: with \<open>copy\<close> the selection is made on the copy, which is
  returned, and \<open>self\<close> stays as it is.
\<close>

definition select :: "engine \<Rightarrow> expr list \<Rightarrow> bool \<Rightarrow> state \<Rightarrow> outcome" where
  "select eng args copy_flag s =
     (if copy_flag
      then (case copy eng s of
              Inl e \<Rightarrow> Raise e s
            | Inr c \<Rightarrow> assign (\<lambda>s'. df_select args (table s')) c)
      else assign (\<lambda>s'. df_select args (table s')) s)"

text \<open>
  \<open>__deepcopy__\<close>: the constructor on \<open>deepcopy(self.df)\<close>, a new table object
  equal to the adapter's.
\<close>

definition deepcopy :: "engine \<Rightarrow> state \<Rightarrow> error + state" where
  "deepcopy eng s = init eng (DataFrameObj (length (snd s))) (snd s @ [table s])"

subsection \<open>The transforms as data, and sequences of calls\<close>

datatype transform =
    UnnestColumnAsRoot string
  | UnnestColumnAsRows string "string option"
  | RenameColumn string string
  | RenameColumns "string list" "string list"
  | Drop "string list"
  | DuplicateColumn string string
  | ExpandColumn string "string option"
  | JsonNormalize "error + dataframe"
  | SetConstant string val
  | Select "expr list" bool

fun call :: "engine \<Rightarrow> transform \<Rightarrow> state \<Rightarrow> outcome" where
  "call eng (UnnestColumnAsRoot c) = unnest_column_as_root c"
| "call eng (UnnestColumnAsRows c prefix) = unnest_column_as_rows eng c prefix"
| "call eng (RenameColumn from_name to_name) = rename_column from_name to_name"
| "call eng (RenameColumns from_names to_names) = rename_columns from_names to_names"
| "call eng (Drop cs) = drop_columns cs"
| "call eng (DuplicateColumn c n) = duplicate_column c n"
| "call eng (ExpandColumn c prefix) = expand_column c prefix"
| "call eng (JsonNormalize r) = json_normalize r"
| "call eng (SetConstant c v) = set_constant c v"
| "call eng (Select args copy_flag) = select eng args copy_flag"

text \<open>
  The state a call leaves, returned or raised; \<open>run\<close> makes the calls of a list one
  after the other on what the call before left (a caller that goes on after an
  exception; a run that stops at the first exception is a run of a shorter list).
\<close>

definition state_after :: "outcome \<Rightarrow> state" where
  "state_after r = (case r of Return s \<Rightarrow> s | Raise e s \<Rightarrow> s)"

fun run :: "engine \<Rightarrow> transform list \<Rightarrow> state \<Rightarrow> state" where
  "run eng [] s = s"
| "run eng (t # ts) s = run eng ts (state_after (call eng t s))"

text \<open>
  For the examples: an engine that refuses every argument outside the fragment, and
  whose \<open>explode\<close> drops the row of an empty list and keeps a null.
\<close>

definition refusing :: engine where
  "refusing = \<lparr>outside = (\<lambda>x. Inl ValueError), empty_as_null = False, keep_nulls = True\<rparr>"

section \<open>The words of the specification, and example tables\<close>



definition struct_col :: series where
  "struct_col =
     \<lparr>name = ''c'', dtype = TStruct [(''a'', TInt64), (''b'', TString)],
      vals = [VStruct [(''a'', VInt 10), (''b'', VStr ''x'')],
              VStruct [(''a'', VInt 20), (''b'', VStr ''y'')]]\<rparr>"

definition id_col :: series where
  "id_col = \<lparr>name = ''id'', dtype = TInt64, vals = [VInt 1, VInt 2]\<rparr>"

definition struct_df :: dataframe where
  "struct_df = [id_col, struct_col]"

definition struct_state :: state where
  "struct_state = (\<lparr>df = 0\<rparr>, [struct_df])"

text \<open>The same table with a sibling column that has the name of a field column.\<close>

definition clash_state :: state where
  "clash_state =
     (\<lparr>df = 0\<rparr>, [struct_df @ [\<lparr>name = ''c_a'', dtype = TInt64, vals = [VInt 7, VInt 8]\<rparr>]])"

definition prefix_clash_state :: state where
  "prefix_clash_state =
     (\<lparr>df = 0\<rparr>, [struct_df @ [\<lparr>name = ''x_b'', dtype = TInt64, vals = [VInt 7, VInt 8]\<rparr>]])"

text \<open>
  A table of three rows whose column \<open>items\<close> holds arrays of structs of lengths
  2, 0 and 1.
\<close>

definition items_col :: series where
  "items_col =
     \<lparr>name = ''items'', dtype = TList (TStruct [(''sku'', TString), (''qty'', TInt64)]),
      vals = [VList [VStruct [(''sku'', VStr ''p''), (''qty'', VInt 1)],
                     VStruct [(''sku'', VStr ''q''), (''qty'', VInt 2)]],
              VList [],
              VList [VStruct [(''sku'', VStr ''r''), (''qty'', VInt 3)]]]\<rparr>"

definition orders_df :: dataframe where
  "orders_df =
     [\<lparr>name = ''order'', dtype = TInt64, vals = [VInt 100, VInt 200, VInt 300]\<rparr>, items_col]"

definition orders_state :: state where
  "orders_state = (\<lparr>df = 0\<rparr>, [orders_df])"

text \<open>
  The same table after an \<open>explode\<close> that drops the row of the empty list, and
  after the struct expansion.
\<close>

definition orders_exploded_df :: dataframe where
  "orders_exploded_df =
     [\<lparr>name = ''order'', dtype = TInt64, vals = [VInt 100, VInt 100, VInt 300]\<rparr>,
      \<lparr>name = ''items'', dtype = TStruct [(''sku'', TString), (''qty'', TInt64)],
       vals = [VStruct [(''sku'', VStr ''p''), (''qty'', VInt 1)],
               VStruct [(''sku'', VStr ''q''), (''qty'', VInt 2)],
               VStruct [(''sku'', VStr ''r''), (''qty'', VInt 3)]]\<rparr>]"

definition orders_rows_df :: dataframe where
  "orders_rows_df =
     [\<lparr>name = ''items_sku'', dtype = TString, vals = [VStr ''p'', VStr ''q'', VStr ''r'']\<rparr>,
      \<lparr>name = ''items_qty'', dtype = TInt64, vals = [VInt 1, VInt 2, VInt 3]\<rparr>,
      \<lparr>name = ''order'', dtype = TInt64, vals = [VInt 100, VInt 100, VInt 300]\<rparr>]"

text \<open>The table of orders with a sibling column that has the name of a field column.\<close>

definition sku_col :: series where
  "sku_col = \<lparr>name = ''items_sku'', dtype = TString, vals = [VStr ''u'', VStr ''v'', VStr ''w'']\<rparr>"

definition orders_clash_state :: state where
  "orders_clash_state = (\<lparr>df = 0\<rparr>, [orders_df @ [sku_col]])"


text \<open>
  JSON-record input. \<open>json_records doc rows\<close>: the document is the array of the
  records \<open>rows\<close>, or it is the single record of \<open>rows\<close>.
  \<open>conforming_records\<close>: every record is of the type the engine infers from the
  first 100 records, as it stands: it has exactly the keys of that type, at least
  one, and under each key a value of the column's type.
  \<open>json_eq\<close>: two JSON values are the same, records being mappings, whatever the
  order of their keys.
\<close>

definition json_records :: "val \<Rightarrow> row list \<Rightarrow> bool" where
  "json_records doc rows = (doc = VList (map VStruct rows) \<or> [doc] = map VStruct rows)"

definition conforming_records :: "val list \<Rightarrow> bool" where
  "conforming_records rs =
     (rs = [] \<or>
      (case infer_items (take 100 rs) of
         Some (TStruct cols) \<Rightarrow> has_items (TStruct cols) rs
       | _ \<Rightarrow> False))"

fun json_eq :: "val \<Rightarrow> val \<Rightarrow> bool"
  and json_eq_items :: "val list \<Rightarrow> val list \<Rightarrow> bool"
  and json_eq_fields :: "(string \<times> val) list \<Rightarrow> (string \<times> val) list \<Rightarrow> bool" where
  "json_eq (VList xs) (VList ys) = json_eq_items xs ys"
| "json_eq (VStruct kvs) (VStruct kvs') =
     (distinct (map fst kvs) \<and> distinct (map fst kvs') \<and> length kvs = length kvs'
      \<and> json_eq_fields kvs kvs')"
| "json_eq v w = (v = w)"
| "json_eq_items [] [] = True"
| "json_eq_items (x # xs) (y # ys) = (json_eq x y \<and> json_eq_items xs ys)"
| "json_eq_items xs ys = False"
| "json_eq_fields [] kvs' = True"
| "json_eq_fields ((k, v) # kvs) kvs' =
     (case map_of kvs' k of None \<Rightarrow> False | Some v' \<Rightarrow> json_eq v v' \<and> json_eq_fields kvs kvs')"

definition people_rows :: "row list" where
  "people_rows =
     [[(''age'', VInt 41), (''score'', VFloat 0.5), (''tags'', VList []),
       (''who'', VStruct [(''n'', VStr ''x''), (''m'', VInt 1)])],
      [(''who'', VStruct [(''m'', VNull), (''n'', VStr ''y'')]), (''tags'', VList [VStr ''t'']),
       (''score'', VNull), (''age'', VNull)]]"

text \<open>Two records of one key, under which a bool meets an int.\<close>

definition mixed_rows :: "row list" where
  "mixed_rows = [[(''a'', VBool True)], [(''a'', VInt 1)]]"

text \<open>Two records that do not have the same keys.\<close>

definition ragged_rows :: "row list" where
  "ragged_rows = [[(''a'', VInt 1)], [(''b'', VInt 2)]]"

section \<open>Properties\<close>

subsection \<open>Facts about the engine's primitives\<close>

lemma init_ListObj: "init eng (ListObj rs) h = Inl ValueError"
  by (simp add: init_def)






lemma table_assign_df [simp]: "table (assign_df d s) = d"
  by (simp add: table_def assign_df_def)









subsection \<open>The claims\<close>

text \<open>
  C8. \<open>set_constant(column_name, value)\<close> is to set every row of the column to the
  value. On the code it raises \<open>TypeError\<close> for every adapter, name and value, and
  the state is as before: the table type of the engine refuses \<open>df[name] = value\<close>.
\<close>

theorem set_constant_raises: "set_constant column_name v s = Raise TypeError s"
  by (simp add: set_constant_def df_setitem_def)

text \<open>
  C4. \<open>copy()\<close> is to return an independent adapter. On the code it raises
  \<open>ValueError\<close> for every adapter: \<open>to_json\<close> returns a list of row dicts, which
  the constructor refuses.
\<close>

theorem copy_raises: "copy eng s = Inl ValueError"
  by (simp add: copy_def init_def)

lemmas example_defs = struct_state_def clash_state_def prefix_clash_state_def struct_df_def
  struct_col_def id_col_def table_def get_column_def columns_def








subsection \<open>Raising and the adapter's state\<close>

lemma assign_Raise: "assign f s = Raise e s' \<Longrightarrow> s' = s \<and> f s = Inl e"
  by (auto simp: assign_def split: sum.splits)

lemma seq_assign_Raise:
  "seq (assign f) (assign g) s = Raise e s' \<Longrightarrow>
     s' = s \<or> (\<exists>d. f s = Inr d \<and> s' = assign_df d s)"
  by (auto simp: seq_def assign_def split: sum.splits outcome.splits)

lemma select_Raise: "select eng args copy_flag s = Raise e s' \<Longrightarrow> s' = s"
  by (auto simp: select_def copy_def init_ListObj dest: assign_Raise split: if_splits)

text \<open>
  C3, as the claim states it, fails: \<open>unnest_column_as_root\<close> on a column that is
  not a struct raises \<open>AttributeError\<close> in its second statement, after the first
  has already assigned the one-column selection to \<open>self.df\<close>; the adapter is left
  with a table that is not the one it had.
\<close>

theorem unnest_column_as_root_partial:
  "unnest_column_as_root ''id'' struct_state
     = Raise AttributeError (\<lparr>df = 1\<rparr>, [struct_df, [id_col]])
   \<and> table (\<lparr>df = 1\<rparr>, [struct_df, [id_col]]) \<noteq> table struct_state"
  by (simp add: unnest_column_as_root_def seq_def assign_def assign_df_def df_select_def
      unnest_with_prefix_def schema_getitem_def dtype_fields_def example_defs)

text \<open>
  C3, amended. When a transform raises, the adapter's state is exactly the state
  before the call, with two exceptions: \<open>unnest_column_as_root\<close> whose selection of
  the column succeeded, and \<open>unnest_column_as_rows\<close> whose \<open>explode\<close> succeeded,
  raise in their second statement with the adapter holding the table of the first.
  So every transform of one statement (\<open>rename_column\<close>, \<open>rename_columns\<close>,
  \<open>drop\<close>, \<open>duplicate_column\<close>, \<open>expand_column\<close>, \<open>json_normalize\<close>,
  \<open>set_constant\<close>, \<open>select\<close>) either succeeds or leaves the state unmodified.
\<close>

theorem raise_leaves_state:
  assumes "call eng t s = Raise e s'"
  shows "s' = s
       \<or> (\<exists>c d. t = UnnestColumnAsRoot c \<and> df_select [Col c] (table s) = Inr d
                  \<and> s' = assign_df d s)
       \<or> (\<exists>c prefix d. t = UnnestColumnAsRows c prefix \<and> df_explode eng c (table s) = Inr d
                  \<and> s' = assign_df d s)"
proof (cases t)
  case (UnnestColumnAsRoot c)
  with assms show ?thesis
    by (auto simp: unnest_column_as_root_def dest: seq_assign_Raise)
next
  case (UnnestColumnAsRows c prefix)
  with assms show ?thesis
    by (auto simp: unnest_column_as_rows_def dest: seq_assign_Raise)
next
  case (SetConstant c v)
  with assms show ?thesis by (simp add: set_constant_def df_setitem_def)
next
  case (Select args copy_flag)
  with assms show ?thesis by (auto dest: select_Raise)
qed (use assms in \<open>auto simp: rename_column_def rename_columns_def drop_columns_def
      duplicate_column_def expand_column_def json_normalize_def dest: assign_Raise\<close>)

theorem raise_leaves_state_witness:
  "call refusing (UnnestColumnAsRoot ''id'') struct_state
     = Raise AttributeError (\<lparr>df = 1\<rparr>, [struct_df, [id_col]])
   \<and> df_select [Col ''id''] (table struct_state) = Inr [id_col]
   \<and> (\<lparr>df = 1\<rparr>, [struct_df, [id_col]]) = assign_df [id_col] struct_state"
proof -
  have h: "call refusing (UnnestColumnAsRoot ''id'') struct_state
     = Raise AttributeError (\<lparr>df = 1\<rparr>, [struct_df, [id_col]])"
    by (simp add: unnest_column_as_root_def seq_def assign_def assign_df_def df_select_def
      unnest_with_prefix_def schema_getitem_def dtype_fields_def example_defs)
  have sel: "df_select [Col ''id''] (table struct_state) = Inr [id_col]"
    by (simp add: df_select_def example_defs)
  from raise_leaves_state[OF h] h sel show ?thesis
    by (auto simp: assign_df_def struct_state_def)
qed

subsection \<open>Renaming\<close>













subsection \<open>The heap only grows\<close>

lemma assign_extends: "\<exists>k. snd (state_after (assign f s)) = snd s @ k"
  by (auto simp: assign_def state_after_def assign_df_def split: sum.splits)

lemma seq_extends:
  assumes "\<And>s. \<exists>k. snd (state_after (f s)) = snd s @ k"
    and "\<And>s. \<exists>k. snd (state_after (g s)) = snd s @ k"
  shows "\<exists>k. snd (state_after (seq f g s)) = snd s @ k"
proof (cases "f s")
  case (Return s1)
  with assms(1)[of s] obtain k1 where k1: "snd s1 = snd s @ k1" by (auto simp: state_after_def)
  from assms(2)[of s1] obtain k2 where "snd (state_after (g s1)) = snd s1 @ k2" by blast
  with k1 Return show ?thesis by (simp add: seq_def)
next
  case (Raise e s1)
  with assms(1)[of s] show ?thesis by (simp add: seq_def state_after_def)
qed

lemma select_extends: "\<exists>k. snd (state_after (select eng args copy_flag s)) = snd s @ k"
  by (simp add: select_def copy_def init_ListObj assign_extends) (simp add: state_after_def)

lemma call_extends: "\<exists>k. snd (state_after (call eng t s)) = snd s @ k"
proof (cases t)
  case (SetConstant c v)
  then show ?thesis by (simp add: set_constant_def df_setitem_def state_after_def)
qed (simp_all add: unnest_column_as_root_def unnest_column_as_rows_def rename_column_def
      rename_columns_def drop_columns_def duplicate_column_def expand_column_def
      json_normalize_def assign_extends seq_extends select_extends)

lemma run_extends: "\<exists>k. snd (run eng ts s) = snd s @ k"
proof (induction ts arbitrary: s)
  case Nil
  then show ?case by simp
next
  case (Cons t ts)
  from call_extends[of eng t s] obtain k1 where
    k1: "snd (state_after (call eng t s)) = snd s @ k1" by blast
  from Cons.IH[of "state_after (call eng t s)"] obtain k2 where
    "snd (run eng ts (state_after (call eng t s))) = snd (state_after (call eng t s)) @ k2"
    by blast
  with k1 show ?case by simp
qed

lemma assign_fresh: "assign f s = Return s' \<Longrightarrow> length (snd s) \<le> df (fst s')"
  by (auto simp: assign_def assign_df_def split: sum.splits)

lemma seq_assign_fresh:
  "seq (assign f) (assign g) s = Return s' \<Longrightarrow> length (snd s) \<le> df (fst s')"
  by (auto simp: seq_def assign_def assign_df_def split: sum.splits outcome.splits)

lemma call_fresh: "call eng t s = Return s' \<Longrightarrow> length (snd s) \<le> df (fst s')"
proof (cases t)
  case (SetConstant c v)
  then show "call eng t s = Return s' \<Longrightarrow> ?thesis"
    by (simp add: set_constant_def df_setitem_def)
next
  case (Select args copy_flag)
  then show "call eng t s = Return s' \<Longrightarrow> ?thesis"
    by (auto simp: select_def copy_def init_ListObj dest: assign_fresh split: if_splits)
qed (auto simp: unnest_column_as_root_def unnest_column_as_rows_def rename_column_def
      rename_columns_def drop_columns_def duplicate_column_def expand_column_def
      json_normalize_def dest: assign_fresh seq_assign_fresh)

text \<open>
  C10. An adapter constructed from a table the caller built keeps the caller's
  table object by reference, at its address \<open>p\<close>. Whatever transforms are then
  called, in any number, returning or raising, the table at \<open>p\<close> is the one the
  caller built; and a transform that returns has bound the adapter to an address that
  was not allocated before the call, that is, to a newly produced table.
\<close>

theorem caller_table_kept:
  assumes "p < length h"
  shows "init eng (DataFrameObj p) h = Inr (\<lparr>df = p\<rparr>, h)
       \<and> snd (run eng ts (\<lparr>df = p\<rparr>, h)) ! p = h ! p
       \<and> (\<forall>t s s'. call eng t s = Return s' \<longrightarrow> length (snd s) \<le> df (fst s'))"
proof -
  from run_extends[of eng ts "(\<lparr>df = p\<rparr>, h)"] obtain k where
    "snd (run eng ts (\<lparr>df = p\<rparr>, h)) = h @ k" by auto
  with assms have "snd (run eng ts (\<lparr>df = p\<rparr>, h)) ! p = h ! p" by (simp add: nth_append)
  then show ?thesis by (auto simp: init_def dest: call_fresh)
qed

theorem caller_table_kept_witness:
  "init refusing (DataFrameObj 0) [struct_df] = Inr (\<lparr>df = 0\<rparr>, [struct_df])
   \<and> snd (run refusing [ExpandColumn ''c'' None, Drop [''id''], SetConstant ''k'' (VInt 0)]
        (\<lparr>df = 0\<rparr>, [struct_df])) ! 0 = struct_df"
proof -
  have 1: "(0::nat) < length [struct_df]" by simp
  from caller_table_kept[OF 1, of refusing
      "[ExpandColumn ''c'' None, Drop [''id''], SetConstant ''k'' (VInt 0)]"]
  show ?thesis by simp
qed

subsection \<open>Exploding an array column into rows\<close>





lemmas orders_defs = orders_state_def orders_clash_state_def orders_df_def items_col_def
  sku_col_def orders_exploded_df_def orders_rows_df_def table_def get_column_def columns_def




text \<open>
  Under the other default of \<open>explode\<close>, where an empty list becomes a row holding
  null, the same call gives four rows.
\<close>

lemma unnest_column_as_rows_empty_as_null:
  "height (table (state_after
     (unnest_column_as_rows (refusing\<lparr>empty_as_null := True\<rparr>) ''items'' None orders_state))) = 4"
  by (simp add: unnest_column_as_rows_def seq_def assign_def assign_df_def df_explode_def
      repeat_vals_def unnest_with_prefix_def alias_of_def schema_getitem_def dtype_fields_def
      df_select_def refusing_def state_after_def height_def orders_defs)

subsection \<open>Reading records and writing them back\<close>

lemma has_fields_present:
  "has_fields fs kvs \<Longrightarrow> (k, t) \<in> set fs \<Longrightarrow> \<exists>v. map_of kvs k = Some v \<and> has_type t v"
  by (induction fs) (auto split: option.splits)

lemma has_fields_keys: "has_fields fs kvs \<Longrightarrow> set (map fst fs) \<subseteq> set (map fst kvs)"
proof
  fix k assume h: "has_fields fs kvs" and "k \<in> set (map fst fs)"
  then obtain t where "(k, t) \<in> set fs" by auto
  with h obtain v where "map_of kvs k = Some v" using has_fields_present by blast
  then show "k \<in> set (map fst kvs)" by (force dest: map_of_SomeD)
qed

lemma same_keys:
  assumes "distinct xs" and "distinct ys" and "length xs = length ys" and "set xs \<subseteq> set ys"
  shows "set xs = set ys"
  using assms by (metis card_subset_eq distinct_card List.finite_set)

lemma json_eq_fields_I:
  "\<forall>(k, y) \<in> set ys. \<exists>x. map_of kvs k = Some x \<and> json_eq y x \<Longrightarrow> json_eq_fields ys kvs"
  by (induction ys) (auto split: option.splits)

lemma json_eq_items_I:
  "list_all2 json_eq ys xs \<Longrightarrow> json_eq_items ys xs"
  by (induction ys xs rule: list_all2_induct) simp_all

text \<open>A value of the type is stored as it stands, up to the order of the keys.\<close>

lemma store_has_type: "has_type t v \<Longrightarrow> \<exists>v'. store t v = Some v' \<and> json_eq v' v"
proof (induction t arbitrary: v)
  case (TList t)
  show ?case
  proof (cases v)
    case (VList xs)
    with TList.prems have "has_items t xs" by simp
    then have "\<exists>ys. store_items t xs = Some ys \<and> list_all2 json_eq ys xs"
    proof (induction xs)
      case Nil
      then show ?case by simp
    next
      case (Cons x xs)
      then obtain y ys where "store t x = Some y" "json_eq y x"
        "store_items t xs = Some ys" "list_all2 json_eq ys xs"
        using TList.IH[of x] by auto
      then show ?case by simp
    qed
    with VList show ?thesis by (auto simp: json_eq_items_I)
  qed (use TList.prems in simp_all)
next
  case (TStruct fs)
  show ?case
  proof (cases v)
    case (VStruct kvs)
    with TStruct.prems have ne: "fs \<noteq> []" and dfs: "distinct (map fst fs)"
      and dk: "distinct (map fst kvs)" and len: "length kvs = length fs"
      and hf: "has_fields fs kvs" by simp_all
    have keys: "set (map fst kvs) = set (map fst fs)"
      using same_keys[OF dfs dk _ has_fields_keys[OF hf]] len by simp
    have "\<exists>ys. store_fields gs kvs = Some ys \<and> map fst ys = map fst gs
            \<and> (\<forall>(k, y) \<in> set ys. \<exists>x. map_of kvs k = Some x \<and> json_eq y x)"
      if "set gs \<subseteq> set fs" for gs
      using that
    proof (induction gs)
      case Nil
      then show ?case by simp
    next
      case (Cons g gs)
      obtain k t where g: "g = (k, t)" by (cases g)
      with Cons.prems have mem: "(k, t) \<in> set fs" by simp
      from has_fields_present[OF hf mem] obtain x where
        x: "map_of kvs k = Some x" "has_type t x" by blast
      have "t \<in> Basic_BNFs.snds (k, t)" by simp
      from TStruct.IH[OF mem this x(2)] obtain y where y: "store t x = Some y" "json_eq y x"
        by blast
      from Cons.IH Cons.prems obtain ys where
        ys: "store_fields gs kvs = Some ys" "map fst ys = map fst gs"
            "\<forall>(k, y) \<in> set ys. \<exists>x. map_of kvs k = Some x \<and> json_eq y x"
        by auto
      with g x y show ?case by simp
    qed
    from this[of fs] obtain ys where
      ys: "store_fields fs kvs = Some ys" "map fst ys = map fst fs"
          "\<forall>(k, y) \<in> set ys. \<exists>x. map_of kvs k = Some x \<and> json_eq y x"
      by auto
    have "json_eq_fields ys kvs" using ys(3) by (rule json_eq_fields_I)
    moreover have "length ys = length kvs"
      using ys(2) len by (metis length_map)
    ultimately have "json_eq (VStruct ys) (VStruct kvs)"
      using ys(2) dfs dk by simp
    moreover have "store (TStruct fs) (VStruct kvs) = Some (VStruct ys)"
      using ne dk keys ys(1) by (simp add: list_all_iff)
    ultimately show ?thesis using VStruct by simp
  qed (use TStruct.prems in simp_all)
qed (case_tac v; simp)+

lemma store_struct_keys:
  assumes "store (TStruct fs) v = Some v'"
  shows "\<exists>ys. v' = VStruct ys \<and> map fst ys = map fst fs"
proof -
  have k: "store_fields gs kvs = Some ys \<Longrightarrow> map fst ys = map fst gs" for gs kvs ys
    by (induction gs arbitrary: ys) (auto split: option.splits)
  from assms show ?thesis by (cases v) (auto split: if_splits dest: k)
qed

text \<open>A record of distinct keys is made again of its fields, looked up key by key.\<close>

lemma record_of_fields:
  assumes "distinct (map fst kvs)" and "map fst cols = map fst kvs"
  shows "map (\<lambda>kt. (fst kt, struct_field_val (fst kt) (VStruct kvs))) cols = kvs"
proof -
  have "map (\<lambda>kt. (fst kt, struct_field_val (fst kt) (VStruct kvs))) cols
      = map (\<lambda>k. (k, struct_field_val k (VStruct kvs))) (map fst cols)"
    by (simp add: comp_def)
  also have "\<dots> = map (\<lambda>kv. (fst kv, struct_field_val (fst kv) (VStruct kvs))) kvs"
    unfolding assms(2) by (simp add: comp_def)
  also have "\<dots> = kvs"
  proof (intro map_idI)
    fix kv assume "kv \<in> set kvs"
    then have "map_of kvs (fst kv) = Some (snd kv)" using assms(1) by simp
    then show "(fst kv, struct_field_val (fst kv) (VStruct kvs)) = kv" by simp
  qed
  finally show ?thesis .
qed

lemma map_index: "map (\<lambda>i. f (xs ! i)) [0..<length xs] = map f xs"
  by (rule nth_equalityI) simp_all

lemma to_dicts_frame_of_records:
  assumes "cols \<noteq> []"
  shows "to_dicts (frame_of_records cols rs)
       = map (\<lambda>r. map (\<lambda>kt. (fst kt, struct_field_val (fst kt) r)) cols) rs"
proof -
  have h: "height (frame_of_records cols rs) = length rs"
    using assms by (cases cols) (simp_all add: height_def frame_of_records_def)
  have "to_dicts (frame_of_records cols rs)
      = map (\<lambda>i. map (\<lambda>kt. (fst kt, struct_field_val (fst kt) (rs ! i))) cols) [0..<length rs]"
    unfolding to_dicts_def h by (simp add: frame_of_records_def comp_def)
  also have "\<dots> = map (\<lambda>r. map (\<lambda>kt. (fst kt, struct_field_val (fst kt) r)) cols) rs"
    by (rule map_index)
  finally show ?thesis .
qed

text \<open>The rows of the table read from records of the inferred type.\<close>

lemma read_records_conforming:
  assumes "has_items (TStruct cols) (map VStruct rows)" and "rows \<noteq> []"
    and "infer_items (take 100 (map VStruct rows)) = Some (TStruct cols)"
  shows "\<exists>d. read_records (map VStruct rows) = Some d
            \<and> list_all2 (\<lambda>r r'. json_eq (VStruct r) (VStruct r')) (to_dicts d) rows"
proof -
  have ht: "has_type (TStruct cols) (VStruct (hd rows))"
    using assms(1,2) by (cases rows) simp_all
  then have ne: "cols \<noteq> []" and dc: "distinct (map fst cols)" by simp_all
  have "\<exists>out. store_items (TStruct cols) (map VStruct rs) = Some (map VStruct out)
           \<and> list_all2 (\<lambda>r r'. json_eq (VStruct r) (VStruct r')) out rs
           \<and> list_all (\<lambda>r. map fst r = map fst cols) out"
    if "has_items (TStruct cols) (map VStruct rs)" for rs
    using that
  proof (induction rs)
    case Nil
    then show ?case by simp
  next
    case (Cons r rs)
    then have "has_type (TStruct cols) (VStruct r)" by simp
    from store_has_type[OF this] obtain v' where
      v': "store (TStruct cols) (VStruct r) = Some v'" "json_eq v' (VStruct r)" by blast
    from store_struct_keys[OF v'(1)] obtain ys where
      ys: "v' = VStruct ys" "map fst ys = map fst cols" by blast
    from Cons obtain out where
      "store_items (TStruct cols) (map VStruct rs) = Some (map VStruct out)"
      "list_all2 (\<lambda>r r'. json_eq (VStruct r) (VStruct r')) out rs"
      "list_all (\<lambda>r. map fst r = map fst cols) out" by auto
    with v' ys show ?case
      by (intro exI[of _ "ys # out"]) (simp del: store.simps json_eq.simps)
  qed
  from this[OF assms(1)] obtain out where
    out: "store_items (TStruct cols) (map VStruct rows) = Some (map VStruct out)"
      "list_all2 (\<lambda>r r'. json_eq (VStruct r) (VStruct r')) out rows"
      "list_all (\<lambda>r. map fst r = map fst cols) out" by blast
  have "map (\<lambda>r. map (\<lambda>kt. (fst kt, struct_field_val (fst kt) r)) cols) (map VStruct out) = out"
    unfolding map_map comp_def
  proof (intro map_idI)
    fix r assume "r \<in> set out"
    with out(3) have k: "map fst cols = map fst r" by (simp add: list_all_iff)
    with dc have "distinct (map fst r)" by simp
    then show "map (\<lambda>kt. (fst kt, struct_field_val (fst kt) (VStruct r))) cols = r"
      using k by (rule record_of_fields)
  qed
  then have "to_dicts (frame_of_records cols (map VStruct out)) = out"
    by (simp add: to_dicts_frame_of_records[OF ne])
  moreover have "read_records (map VStruct rows) = Some (frame_of_records cols (map VStruct out))"
    using assms(3) out(1) by (simp add: read_records_def)
  ultimately show ?thesis using out(2) by simp
qed

lemma to_json_new: "to_json (\<lparr>df = length h\<rparr>, h @ [d]) = to_dicts d"
  by (simp add: to_json_def table_def)

lemmas reader_defs = init_def read_json_def read_records_def frame_of_records_def
  to_json_def to_dicts_def height_def table_def refusing_def

text \<open>
  C1, as the claim states it, fails: of two records with the one key \<open>a\<close>, the
  first holding \<open>true\<close> and the second \<open>1\<close>, the adapter makes an integer
  column, and \<open>to_json\<close> gives \<open>1\<close> for the \<open>true\<close> of the first record.
\<close>

theorem round_trip_bool_int:
  "init refusing (StrObj (VList (map VStruct mixed_rows))) []
     = Inr (\<lparr>df = 0\<rparr>, [[\<lparr>name = ''a'', dtype = TInt64, vals = [VInt 1, VInt 1]\<rparr>]])
   \<and> to_json (\<lparr>df = 0\<rparr>, [[\<lparr>name = ''a'', dtype = TInt64, vals = [VInt 1, VInt 1]\<rparr>]])
     = [[(''a'', VInt 1)], [(''a'', VInt 1)]]
   \<and> \<not> json_eq (VStruct [(''a'', VInt 1)]) (VStruct [(''a'', VBool True)])"
  by (simp add: reader_defs mixed_rows_def)

text \<open>
  Records that do not have the same keys come back with the keys of all of them,
  holding null where a record had no value.
\<close>

lemma round_trip_missing_key:
  "init refusing (StrObj (VList (map VStruct ragged_rows))) []
     = Inr (\<lparr>df = 0\<rparr>, [[\<lparr>name = ''a'', dtype = TInt64, vals = [VInt 1, VNull]\<rparr>,
                          \<lparr>name = ''b'', dtype = TInt64, vals = [VNull, VInt 2]\<rparr>]])
   \<and> to_json (\<lparr>df = 0\<rparr>, [[\<lparr>name = ''a'', dtype = TInt64, vals = [VInt 1, VNull]\<rparr>,
                               \<lparr>name = ''b'', dtype = TInt64, vals = [VNull, VInt 2]\<rparr>]])
     = [[(''a'', VInt 1), (''b'', VNull)], [(''a'', VNull), (''b'', VInt 2)]]"
  by (simp add: reader_defs ragged_rows_def)

text \<open>
  C1, amended. For every JSON document of records, an array of any number of them
  or a single one, in which every record is, as it stands, of the type the engine
  infers from the first 100 records (exactly the keys of that type, at least one, in
  any order; under each key null or a value of exactly the column's type, so no bool
  in a column of integers, no integer beyond 64 bits), the constructor returns an
  adapter, and \<open>to_json\<close> of it has as many rows as the document has records, each
  row mapping the keys of its record to the values of its record.
\<close>

theorem round_trip:
  assumes "json_records doc rows" and "conforming_records (map VStruct rows)"
  shows "\<exists>s. init eng (StrObj doc) h = Inr s
            \<and> length (to_json s) = length rows
            \<and> list_all2 (\<lambda>r r'. json_eq (VStruct r) (VStruct r')) (to_json s) rows"
proof -
  have "\<exists>d. read_json (outside eng (StrObj doc)) doc = Inr d
          \<and> list_all2 (\<lambda>r r'. json_eq (VStruct r) (VStruct r')) (to_dicts d) rows"
  proof (cases "rows = []")
    case True
    with assms(1) have "doc = VList []" by (simp add: json_records_def)
    with True show ?thesis by (simp add: read_json_def to_dicts_def height_def)
  next
    case False
    with assms(2) obtain cols where
      inf: "infer_items (take 100 (map VStruct rows)) = Some (TStruct cols)"
      and hi: "has_items (TStruct cols) (map VStruct rows)"
      by (auto simp: conforming_records_def split: option.splits dtype.splits)
    from read_records_conforming[OF hi False inf] obtain d where
      d: "read_records (map VStruct rows) = Some d"
         "list_all2 (\<lambda>r r'. json_eq (VStruct r) (VStruct r')) (to_dicts d) rows" by blast
    from assms(1) consider "doc = VList (map VStruct rows)" | "[doc] = map VStruct rows"
      by (auto simp: json_records_def)
    then show ?thesis
    proof cases
      case 1
      with d False show ?thesis by (simp add: read_json_def)
    next
      case 2
      then obtain r where "rows = [r]" "doc = VStruct r" by (cases rows) auto
      with d show ?thesis by (simp add: read_json_def)
    qed
  qed
  then obtain d where "read_json (outside eng (StrObj doc)) doc = Inr d"
    "list_all2 (\<lambda>r r'. json_eq (VStruct r) (VStruct r')) (to_dicts d) rows" by blast
  then have "init eng (StrObj doc) h = Inr (\<lparr>df = length h\<rparr>, h @ [d])
      \<and> list_all2 (\<lambda>r r'. json_eq (VStruct r) (VStruct r')) (to_json (\<lparr>df = length h\<rparr>, h @ [d])) rows"
    by (simp add: init_def to_json_new)
  then show ?thesis by (auto dest: list_all2_lengthD)
qed

theorem round_trip_witness:
  "\<exists>s. init refusing (StrObj (VList (map VStruct people_rows))) [] = Inr s
       \<and> length (to_json s) = 2
       \<and> list_all2 (\<lambda>r r'. json_eq (VStruct r) (VStruct r')) (to_json s) people_rows"
proof -
  have 1: "json_records (VList (map VStruct people_rows)) people_rows"
    by (simp add: json_records_def)
  have 2: "conforming_records (map VStruct people_rows)"
    by (simp add: conforming_records_def people_rows_def)
  from round_trip[OF 1 2, of refusing "[]"] show ?thesis
    by (auto simp: people_rows_def)
qed

subsection \<open>The deep copy\<close>

text \<open>
  \<open>__deepcopy__\<close>, unlike \<open>copy\<close>, goes through the table branch of the
  constructor: it returns an adapter on a new table equal to the adapter's.
\<close>

lemma deepcopy_new_table:
  "deepcopy eng s = Inr (\<lparr>df = length (snd s)\<rparr>, snd s @ [table s])
   \<and> table (\<lparr>df = length (snd s)\<rparr>, snd s @ [table s]) = table s"
  by (simp add: deepcopy_def init_def table_def)

end
